theory Spec2Isabelle
  imports Main "HOL-Library.Word"
begin

section \<open>The component playground of \<^verbatim>\<open>src/components/SandboxIDE.tsx\<close>\<close>

text \<open>
  The file is one React module: a handful of pure helpers (\<^verbatim>\<open>transpileCode\<close>,
  \<^verbatim>\<open>createSandboxEnvironment\<close>, \<^verbatim>\<open>evaluateCode\<close>) and five function components whose
  \<^verbatim>\<open>useState\<close> cells are the whole state of the page. Each component is modelled by a
  record of its state cells and each event handler by a function from state to state.
  What the file takes from elsewhere (the Babel transform, the JavaScript engine that runs
  the generated function body, the exports of the React module) is a parameter of the
  definitions that use it.
\<close>

subsection \<open>Strings\<close>

text \<open>
  A JavaScript string is a sequence of 16-bit code units. \<open>js\<close> embeds the text of a
  string literal of the source.
\<close>

type_synonym js_string = "16 word list"

definition js :: "string \<Rightarrow> js_string" where
  "js s = map of_char s"

text \<open>
  \<^verbatim>\<open>String.prototype.trim\<close> strips the code units of the ECMAScript productions WhiteSpace
  (TAB, VT, FF, SP, NBSP, ZWNBSP and the space separators of Unicode) and LineTerminator
  (LF, CR, LS, PS) from both ends.
\<close>

definition isWhiteSpace :: "16 word \<Rightarrow> bool" where
  "isWhiteSpace c \<longleftrightarrow>
     c \<in> {0x9, 0xB, 0xC, 0x20, 0xA0, 0xFEFF, 0x1680, 0x202F, 0x205F, 0x3000}
     \<or> (0x2000 \<le> c \<and> c \<le> 0x200A)
     \<or> c \<in> {0xA, 0xD, 0x2028, 0x2029}"

definition trim :: "js_string \<Rightarrow> js_string" where
  "trim s = rev (dropWhile isWhiteSpace (rev (dropWhile isWhiteSpace s)))"

subsection \<open>Values\<close>

text \<open>
  The values that reach the code under study. Numbers are the integer-valued ones and
  \<open>NaN\<close>. An object is the list of its own enumerable data properties in insertion order
  (accessor properties are not modelled). A function written by the user is opaque and
  carries an identity and its own properties. The two arrow functions that
  \<^verbatim>\<open>evaluateCode\<close> itself creates are closures over one captured variable:
  \<open>ConstProducer result\<close> is \<^verbatim>\<open>() => result\<close> of line 42 and \<open>ErrorProducer error\<close> is the
  arrow function of lines 44 to 49. \<open>Element type props children\<close> is what
  \<^verbatim>\<open>React.createElement\<close> returns.
\<close>

datatype js_value =
    Undefined
  | Null
  | Boolean bool
  | Number int
  | NaN
  | String js_string
  | Object "(js_string \<times> js_value) list"
  | Function nat "(js_string \<times> js_value) list"
  | Element js_value "(js_string \<times> js_value) list" "js_value list"
  | ConstProducer js_value
  | ErrorProducer js_value

type_synonym js_object = "(js_string \<times> js_value) list"

text \<open>A thrown value is \<open>Inl\<close>; a normal completion is \<open>Inr\<close>.\<close>

type_synonym 'a completion = "js_value + 'a"

text \<open>\<^verbatim>\<open>ToBoolean\<close>: what \<^verbatim>\<open>if (v)\<close>, \<^verbatim>\<open>v || w\<close> and \<^verbatim>\<open>v ? a : b\<close> test.\<close>

fun truthy :: "js_value \<Rightarrow> bool" where
  "truthy Undefined = False"
| "truthy Null = False"
| "truthy (Boolean b) = b"
| "truthy (Number n) = (n \<noteq> 0)"
| "truthy NaN = False"
| "truthy (String s) = (s \<noteq> [])"
| "truthy _ = True"

text \<open>\<^verbatim>\<open>typeof v === 'function'\<close>.\<close>

fun callable :: "js_value \<Rightarrow> bool" where
  "callable (Function _ _) = True"
| "callable (ConstProducer _) = True"
| "callable (ErrorProducer _) = True"
| "callable _ = False"

definition TypeError :: "js_string \<Rightarrow> js_value" where
  "TypeError msg = Object [(js ''name'', String (js ''TypeError'')), (js ''message'', String msg)]"

text \<open>
  \<^verbatim>\<open>v.k\<close> for the two property names the file reads from values it does not control,
  \<^verbatim>\<open>default\<close> and \<^verbatim>\<open>message\<close>: reading a property of \<^verbatim>\<open>undefined\<close> or \<^verbatim>\<open>null\<close> throws a
  TypeError, an own property is returned, and anything else is \<^verbatim>\<open>undefined\<close> (no
  built-in prototype of the other values has a property of either name).
\<close>

fun get_prop :: "js_value \<Rightarrow> js_string \<Rightarrow> js_value completion" where
  "get_prop Undefined k = Inl (TypeError (js ''Cannot read properties of undefined''))"
| "get_prop Null k = Inl (TypeError (js ''Cannot read properties of null''))"
| "get_prop (Object ps) k = Inr (case map_of ps k of Some v \<Rightarrow> v | None \<Rightarrow> Undefined)"
| "get_prop (Function f ps) k = Inr (case map_of ps k of Some v \<Rightarrow> v | None \<Rightarrow> Undefined)"
| "get_prop _ k = Inr Undefined"

text \<open>
  Writing a property keeps the position of a key that is already there and appends a new
  one; \<^verbatim>\<open>{...base, ...src}\<close> writes the properties of \<open>src\<close> in order.
\<close>

fun set_prop :: "js_object \<Rightarrow> js_string \<Rightarrow> js_value \<Rightarrow> js_object" where
  "set_prop [] k v = [(k, v)]"
| "set_prop ((k', v') # ps) k v = (if k' = k then (k, v) # ps else (k', v') # set_prop ps k v)"

fun spread :: "js_object \<Rightarrow> js_object \<Rightarrow> js_object" where
  "spread base [] = base"
| "spread base ((k, v) # src) = spread (set_prop base k v) src"

subsection \<open>Constants\<close>

definition DEBOUNCE_DELAY :: nat where
  "DEBOUNCE_DELAY = 500"

record size =
  width :: int
  height :: int

definition MOBILE_SIZES :: "(js_string \<times> size) list" where
  "MOBILE_SIZES =
     [(js ''iPhone SE'', \<lparr>width = 375, height = 667\<rparr>),
      (js ''iPhone XR'', \<lparr>width = 414, height = 896\<rparr>),
      (js ''iPad'', \<lparr>width = 768, height = 1024\<rparr>)]"

subsection \<open>History and the editor\<close>

record entry =
  name :: js_string
  code :: js_string

text \<open>The three state cells of \<^verbatim>\<open>Sandbox\<close> (lines 170 to 172).\<close>

record Sandbox =
  code :: js_string
  Component :: js_value
  history :: "entry list"

text \<open>The state cell of \<^verbatim>\<open>CodeEditor\<close> (line 132).\<close>

record CodeEditor =
  componentName :: js_string

text \<open>\<^verbatim>\<open>xs.filter((x, i) => p(x, i))\<close>: the callback sees each element with its index.\<close>

fun filter_indexed :: "('a \<Rightarrow> int \<Rightarrow> bool) \<Rightarrow> int \<Rightarrow> 'a list \<Rightarrow> 'a list" where
  "filter_indexed p i [] = []"
| "filter_indexed p i (x # xs) =
     (if p x i then x # filter_indexed p (i + 1) xs else filter_indexed p (i + 1) xs)"

text \<open>Line 189: \<^verbatim>\<open>onDelete={(index) => setHistory(prev => prev.filter((_, i) => i !== index))}\<close>.\<close>

definition onDelete :: "int \<Rightarrow> Sandbox \<Rightarrow> Sandbox" where
  "onDelete index s = s\<lparr>history := filter_indexed (\<lambda>_ i. i \<noteq> index) 0 (history s)\<rparr>"

text \<open>Line 189: \<^verbatim>\<open>onSelect={setCode}\<close>, and line 196: \<^verbatim>\<open>onChange={setCode}\<close>.\<close>

definition setCode :: "js_string \<Rightarrow> Sandbox \<Rightarrow> Sandbox" where
  "setCode c s = s\<lparr>Sandbox.code := c\<rparr>"

text \<open>Line 196: \<^verbatim>\<open>onSave={(name, code) => setHistory(prev => [...prev, { name, code }])}\<close>.\<close>

definition onSave :: "js_string \<Rightarrow> js_string \<Rightarrow> Sandbox \<Rightarrow> Sandbox" where
  "onSave n c s = s\<lparr>history := history s @ [\<lparr>name = n, code = c\<rparr>]\<rparr>"

text \<open>
  \<^verbatim>\<open>handleSave\<close> (lines 134 to 141). The \<^verbatim>\<open>code\<close> prop of the editor is the \<^verbatim>\<open>code\<close> cell
  of \<^verbatim>\<open>Sandbox\<close> (line 196). The first component of the result is the text of the
  \<^verbatim>\<open>alert\<close>, when there is one.
\<close>

definition handleSave :: "CodeEditor \<Rightarrow> Sandbox \<Rightarrow> js_string option \<times> CodeEditor \<times> Sandbox" where
  "handleSave ed s =
     (if trim (componentName ed) \<noteq> []
      then (None, ed\<lparr>componentName := []\<rparr>, onSave (componentName ed) (Sandbox.code s) s)
      else (Some (js ''Please enter a component name before saving.''), ed, s))"

subsection \<open>Transpiling and evaluating\<close>

text \<open>
  \<^verbatim>\<open>transpileCode\<close> (lines 14 to 20) returns the \<^verbatim>\<open>code\<close> field of what \<^verbatim>\<open>Babel.transform\<close>
  gives for the fixed options of the source, or throws what Babel throws. \<open>transform\<close> is
  that call.
\<close>

definition transpileCode :: "(js_string \<Rightarrow> js_string completion) \<Rightarrow> js_string \<Rightarrow> js_string completion" where
  "transpileCode transform c = transform c"

text \<open>
  \<^verbatim>\<open>createSandboxEnvironment\<close> (lines 23 to 27): the object literal
  \<^verbatim>\<open>{ React, ReactDOM, ...React }\<close>, where \<open>React_exports\<close> are the own enumerable
  properties of the default export of \<^verbatim>\<open>react\<close>.
\<close>

definition createSandboxEnvironment :: "js_object \<Rightarrow> js_value \<Rightarrow> js_object" where
  "createSandboxEnvironment React_exports ReactDOM =
     spread [(js ''React'', Object React_exports), (js ''ReactDOM'', ReactDOM)] React_exports"

text \<open>
  Line 40 makes the keys of \<open>sandboxEnv\<close> the parameter names of a new function and line
  41 passes the values in the same order, so inside the body an identifier that is a key
  of \<open>sandboxEnv\<close> has that key's value. An identifier that is not a key resolves in
  the global scope, where this page defines neither \<^verbatim>\<open>React\<close> nor \<^verbatim>\<open>ReactDOM\<close>.
\<close>

definition ReferenceError :: "js_string \<Rightarrow> js_value" where
  "ReferenceError msg = Object [(js ''name'', String (js ''ReferenceError'')), (js ''message'', String msg)]"

definition resolve :: "js_object \<Rightarrow> js_string \<Rightarrow> js_value completion" where
  "resolve sandboxEnv x =
     (case map_of sandboxEnv x of
        Some v \<Rightarrow> Inr v
      | None \<Rightarrow> Inl (ReferenceError (x @ js '' is not defined'')))"

text \<open>Line 34: \<^verbatim>\<open>const require = (moduleName) => moduleName === 'react' ? React : ReactDOM\<close>.\<close>

definition require :: "js_object \<Rightarrow> js_value \<Rightarrow> js_value completion" where
  "require sandboxEnv moduleName =
     (if moduleName = String (js ''react'')
      then resolve sandboxEnv (js ''React'')
      else resolve sandboxEnv (js ''ReactDOM''))"

text \<open>
  The body of the generated function (lines 32 to 37), called at line 41. \<open>exec\<close> is the
  engine running the transpiled statements of line 35 in the scope of the function: it
  is given the statements, the injected bindings and the \<^verbatim>\<open>require\<close> of line 34, and
  either throws (a \<^verbatim>\<open>SyntaxError\<close> of \<^verbatim>\<open>new Function\<close> included) or completes, leaving some
  value in \<^verbatim>\<open>module.exports\<close>, which line 33 initialises to \<^verbatim>\<open>{}\<close>. Line 36 is
  \<^verbatim>\<open>return module.exports.default || module.exports\<close>.
\<close>

type_synonym engine =
  "js_string \<Rightarrow> js_object \<Rightarrow> (js_value \<Rightarrow> js_value completion) \<Rightarrow> js_value completion"

definition wrappedCode :: "engine \<Rightarrow> js_string \<Rightarrow> js_object \<Rightarrow> js_value completion" where
  "wrappedCode exec transpiledCode sandboxEnv =
     (case exec transpiledCode sandboxEnv (require sandboxEnv) of
        Inl thrown \<Rightarrow> Inl thrown
      | Inr exports \<Rightarrow>
          (case get_prop exports (js ''default'') of
             Inl thrown \<Rightarrow> Inl thrown
           | Inr dflt \<Rightarrow> Inr (if truthy dflt then dflt else exports)))"

text \<open>\<^verbatim>\<open>React.isValidElement\<close>.\<close>

fun isValidElement :: "js_value \<Rightarrow> bool" where
  "isValidElement (Element _ _ _) = True"
| "isValidElement _ = False"

text \<open>
  \<^verbatim>\<open>evaluateCode\<close> (lines 30 to 51). The call of \<^verbatim>\<open>transpileCode\<close> at line 31 stands before
  the \<^verbatim>\<open>try\<close> of line 39, so what it throws leaves \<^verbatim>\<open>evaluateCode\<close>; what lines 40 and 41
  throw is caught at line 43.
\<close>

definition evaluateCode ::
  "(js_string \<Rightarrow> js_string completion) \<Rightarrow> engine \<Rightarrow> js_string \<Rightarrow> js_object \<Rightarrow> js_value completion" where
  "evaluateCode transform exec c sandboxEnv =
     (case transpileCode transform c of
        Inl thrown \<Rightarrow> Inl thrown
      | Inr transpiledCode \<Rightarrow>
          Inr (case wrappedCode exec transpiledCode sandboxEnv of
                 Inr result \<Rightarrow> if isValidElement result then ConstProducer result else result
               | Inl error \<Rightarrow> ErrorProducer error))"

text \<open>
  The markup shared by lines 45 to 48 and lines 68 to 71: a box with a heading and the
  message in a \<^verbatim>\<open>pre\<close>.
\<close>

definition error_box :: "js_string \<Rightarrow> js_value \<Rightarrow> js_value" where
  "error_box heading message =
     Element (String (js ''div''))
       [(js ''className'', String (js ''p-4 bg-red-100 border border-red-400 text-red-700 rounded''))]
       [Element (String (js ''h2''))
          [(js ''className'', String (js ''text-lg font-semibold mb-2''))]
          [String heading],
        Element (String (js ''pre''))
          [(js ''className'', String (js ''whitespace-pre-wrap''))]
          [message]]"

text \<open>
  Calling a value with no argument. \<open>user\<close> runs a function of the user's script; calling
  what is not a function throws a TypeError.
\<close>

fun call :: "(nat \<Rightarrow> js_value completion) \<Rightarrow> js_value \<Rightarrow> js_value completion" where
  "call user (ConstProducer result) = Inr result"
| "call user (ErrorProducer error) =
     (case get_prop error (js ''message'') of
        Inl thrown \<Rightarrow> Inl thrown
      | Inr message \<Rightarrow> Inr (error_box (js ''Evaluation Error:'') message))"
| "call user (Function f _) = user f"
| "call user _ = Inl (TypeError (js ''Component is not a function''))"

text \<open>
  The function that line 175 hands to \<^verbatim>\<open>debounce\<close> (lines 175 to 179). The first
  component of the result is the exception that left it, when there is one; the state is
  then as it was, since \<^verbatim>\<open>setComponent\<close> was not reached.
\<close>

definition codeEvaluation ::
  "(js_string \<Rightarrow> js_string completion) \<Rightarrow> engine \<Rightarrow> js_object \<Rightarrow> js_value
   \<Rightarrow> js_string \<Rightarrow> Sandbox \<Rightarrow> js_value option \<times> Sandbox" where
  "codeEvaluation transform exec React_exports ReactDOM c s =
     (case evaluateCode transform exec c (createSandboxEnvironment React_exports ReactDOM) of
        Inl thrown \<Rightarrow> (Some thrown, s)
      | Inr evaluatedComponent \<Rightarrow> (None, s\<lparr>Component := evaluatedComponent\<rparr>))"

subsection \<open>The error listener\<close>

text \<open>
  \<^verbatim>\<open>ErrorBoundary\<close> (lines 54 to 76) has one state cell, \<^verbatim>\<open>null\<close> at first. The only call
  of \<^verbatim>\<open>setError\<close> is in the listener of the window's \<^verbatim>\<open>error\<close> events (line 59); rendering
  with new children (which is what line 100 does whenever the producer changes) reads
  the cell and writes nothing. The model covers one mounted instance.
\<close>

record ErrorBoundary =
  error :: js_value

definition errorHandler :: "js_value \<Rightarrow> ErrorBoundary \<Rightarrow> ErrorBoundary" where
  "errorHandler event_error b = b\<lparr>error := event_error\<rparr>"

definition Fragment :: "js_value \<Rightarrow> js_value" where
  "Fragment children = Element (String (js ''React.Fragment'')) [] [children]"

definition renderErrorBoundary :: "ErrorBoundary \<Rightarrow> js_value \<Rightarrow> js_value completion" where
  "renderErrorBoundary b children =
     (if truthy (error b)
      then (case get_prop (error b) (js ''message'') of
              Inl thrown \<Rightarrow> Inl thrown
            | Inr message \<Rightarrow> Inr (error_box (js ''Runtime Error:'') message))
      else Inr (Fragment children))"

datatype boundary_event =
    ErrorEvent js_value
  | ProducerChange js_value

fun boundary_step :: "boundary_event \<Rightarrow> ErrorBoundary \<Rightarrow> ErrorBoundary" where
  "boundary_step (ErrorEvent event_error) b = errorHandler event_error b"
| "boundary_step (ProducerChange children) b = b"

subsection \<open>The preview frame\<close>

text \<open>The two state cells of \<^verbatim>\<open>MiniBrowser\<close> (lines 80 and 81).\<close>

record MiniBrowser =
  isFullscreen :: bool
  mobileSize :: "size option"

text \<open>
  Line 117: \<^verbatim>\<open>onChange={(e) => setMobileSize(MOBILE_SIZES[e.target.value] || null)}\<close>. The
  value of the event is the value of one of the options of lines 118 and 119: the empty
  string of "Desktop" or a key of \<open>MOBILE_SIZES\<close>.
\<close>

definition onChange :: "js_string \<Rightarrow> MiniBrowser \<Rightarrow> MiniBrowser" where
  "onChange target_value m = m\<lparr>mobileSize := map_of MOBILE_SIZES target_value\<rparr>"

text \<open>Line 124: \<^verbatim>\<open>style={{ height: '400px', overflowY: 'auto', ...mobileSize }}\<close>.\<close>

definition style :: "MiniBrowser \<Rightarrow> js_object" where
  "style m =
     spread [(js ''height'', String (js ''400px'')), (js ''overflowY'', String (js ''auto''))]
       (case mobileSize m of
          None \<Rightarrow> []
        | Some sz \<Rightarrow> [(js ''width'', Number (width sz)), (js ''height'', Number (height sz))])"

text \<open>The presets whose dimensions are the ones in force.\<close>

definition active_presets :: "MiniBrowser \<Rightarrow> js_string list" where
  "active_presets m = map fst (filter (\<lambda>(device, sz). mobileSize m = Some sz) MOBILE_SIZES)"

subsection \<open>Debounced evaluation\<close>

text \<open>
  Modelled from the spec: \<^verbatim>\<open>debounce\<close> is imported from lodash (line 4); neither it nor the
  timer queue of the browser is part of the source. The spec says that "edits are
  coalesced with a fixed delay before triggering the pipeline; only the most recent
  buffer value within the window is processed", and that "a new keystroke restarts the
  delay window, effectively canceling the pending invocation for stale input". Time is
  counted in milliseconds. A debounced function holds at most one pending invocation:
  the time at which it is due and the argument of the latest call.
\<close>

record debounced =
  pending :: "(nat \<times> js_string) option"

text \<open>
  Modelled from the spec: a call at time \<open>now\<close> restarts the delay window and replaces
  the pending argument.
\<close>

definition debounced_call :: "nat \<Rightarrow> nat \<Rightarrow> js_string \<Rightarrow> debounced \<Rightarrow> debounced" where
  "debounced_call wait now arg d = d\<lparr>pending := Some (now + wait, arg)\<rparr>"

text \<open>
  Modelled from the spec: the argument of the pending invocation, once its delay has
  passed at time \<open>now\<close>.
\<close>

definition debounced_due :: "nat \<Rightarrow> debounced \<Rightarrow> js_string option" where
  "debounced_due now d =
     (case pending d of
        None \<Rightarrow> None
      | Some (due, arg) \<Rightarrow> if due \<le> now then Some arg else None)"

text \<open>What the page takes from its libraries and from the engine.\<close>

record host =
  babel :: "js_string \<Rightarrow> js_string completion"
  run :: engine
  react :: js_object
  react_dom :: js_value

text \<open>
  An editing session: the state of \<^verbatim>\<open>Sandbox\<close>, the debounced function of line 174 (made
  once, by \<^verbatim>\<open>useCallback\<close> with no dependency), the arguments with which the function of
  line 175 has been run so far, and the exceptions that left it.
\<close>

record session =
  sandbox :: Sandbox
  timer :: debounced
  evaluated :: "js_string list"
  reported :: "js_value list"

text \<open>Time passes until \<open>now\<close>: a pending invocation that is due by then takes place.\<close>

definition elapse :: "host \<Rightarrow> nat \<Rightarrow> session \<Rightarrow> session" where
  "elapse h now ss =
     (case debounced_due now (timer ss) of
        None \<Rightarrow> ss
      | Some arg \<Rightarrow>
          (case codeEvaluation (babel h) (run h) (react h) (react_dom h) arg (sandbox ss) of
             (uncaught, s') \<Rightarrow>
               ss\<lparr>sandbox := s',
                  timer := (timer ss)\<lparr>pending := None\<rparr>,
                  evaluated := evaluated ss @ [arg],
                  reported := reported ss @ (case uncaught of None \<Rightarrow> [] | Some thrown \<Rightarrow> [thrown])\<rparr>))"

text \<open>
  An edit at time \<open>now\<close> sets the buffer (line 145). The effect of lines 183 to 185 has
  \<^verbatim>\<open>code\<close> as its dependency: it calls the debounced function when the buffer has changed.
\<close>

definition edit :: "host \<Rightarrow> nat \<times> js_string \<Rightarrow> session \<Rightarrow> session" where
  "edit h e ss =
     (let ss' = elapse h (fst e) ss in
      if snd e = Sandbox.code (sandbox ss') then ss'
      else ss'\<lparr>sandbox := setCode (snd e) (sandbox ss'),
               timer := debounced_call DEBOUNCE_DELAY (fst e) (snd e) (timer ss')\<rparr>)"

fun edits :: "host \<Rightarrow> (nat \<times> js_string) list \<Rightarrow> session \<Rightarrow> session" where
  "edits h [] ss = ss"
| "edits h (e # es) ss = edits h es (edit h e ss)"

text \<open>
  Successive edits, each changing the buffer and each less than \<open>DEBOUNCE_DELAY\<close> after
  the one before.
\<close>

fun rapid :: "(nat \<times> js_string) list \<Rightarrow> bool" where
  "rapid (e # e' # es) \<longleftrightarrow>
     fst e \<le> fst e' \<and> fst e' < fst e + DEBOUNCE_DELAY \<and> snd e' \<noteq> snd e \<and> rapid (e' # es)"
| "rapid _ \<longleftrightarrow> True"

text \<open>
  Mounting \<^verbatim>\<open>Sandbox\<close> at time \<open>now\<close>: the initial cells of lines 170 to 172 (the producer
  is \<^verbatim>\<open>() => null\<close>), and the effect of line 183 calls the debounced function with the
  empty buffer.
\<close>

definition mount :: "nat \<Rightarrow> session" where
  "mount now =
     \<lparr>sandbox = \<lparr>Sandbox.code = [], Component = ConstProducer Null, history = []\<rparr>,
      timer = debounced_call DEBOUNCE_DELAY now [] \<lparr>pending = None\<rparr>,
      evaluated = [],
      reported = []\<rparr>"

subsection \<open>A host for the examples\<close>

text \<open>
  The examples below run the definitions on a small host. Its transform rejects the
  unterminated element \<^verbatim>\<open><div\<close>, as Babel does, and returns any other text as it is (which
  is what Babel does, up to layout, with text that has no markup). Its engine knows five
  scripts and what each leaves in \<^verbatim>\<open>module.exports\<close>, and rejects every other text.
\<close>

definition SyntaxError :: "js_string \<Rightarrow> js_value" where
  "SyntaxError msg = Object [(js ''name'', String (js ''SyntaxError'')), (js ''message'', String msg)]"

definition unterminated :: js_string where
  "unterminated = js ''<div''"

definition example_babel :: "js_string \<Rightarrow> js_string completion" where
  "example_babel c =
     (if c = unterminated then Inl (SyntaxError (js ''Unexpected token (1:4)'')) else Inr c)"

definition default_zero :: js_string where
  "default_zero = js ''module.exports.default = 0;''"

definition exports_five :: js_string where
  "exports_five = js ''module.exports = 5;''"

definition exports_null :: js_string where
  "exports_null = js ''module.exports = null;''"

definition default_element :: js_string where
  "default_element = js ''module.exports.default = React.createElement(`hr`);''"

definition example_run :: engine where
  "example_run transpiledCode sandboxEnv req =
     (if transpiledCode = [] then Inr (Object [])
      else if transpiledCode = default_zero then Inr (Object [(js ''default'', Number 0)])
      else if transpiledCode = exports_five then Inr (Number 5)
      else if transpiledCode = exports_null then Inr Null
      else if transpiledCode = default_element
        then Inr (Object [(js ''default'', Element (String (js ''hr'')) [] [])])
      else Inl (SyntaxError (js ''Unexpected identifier'')))"

definition example_react :: js_object where
  "example_react = [(js ''createElement'', Function 0 []), (js ''useState'', Function 1 [])]"

definition example_react_dom :: js_value where
  "example_react_dom = Object [(js ''createRoot'', Function 2 [])]"

definition example_host :: host where
  "example_host =
     \<lparr>babel = example_babel, run = example_run, react = example_react,
      react_dom = example_react_dom\<rparr>"

text \<open>A state of \<^verbatim>\<open>Sandbox\<close> with three saved components, for the examples below.\<close>

definition three_entries :: Sandbox where
  "three_entries =
     \<lparr>Sandbox.code = js ''x'', Component = Null,
      history = [\<lparr>name = js ''A'', code = js ''1''\<rparr>, \<lparr>name = js ''B'', code = js ''2''\<rparr>,
                 \<lparr>name = js ''C'', code = js ''3''\<rparr>]\<rparr>"

section \<open>Properties\<close>

subsection \<open>History\<close>

lemma filter_indexed_keep:
  "index < i \<Longrightarrow> filter_indexed (\<lambda>_ j. j \<noteq> index) i xs = xs"
  by (induction xs arbitrary: i) auto

lemma filter_indexed_beyond:
  "i + int (length xs) \<le> index \<Longrightarrow> filter_indexed (\<lambda>_ j. j \<noteq> index) i xs = xs"
  by (induction xs arbitrary: i) auto

lemma filter_indexed_drop:
  "i \<le> index \<Longrightarrow> index < i + int (length xs) \<Longrightarrow>
   filter_indexed (\<lambda>_ j. j \<noteq> index) i xs
     = take (nat (index - i)) xs @ drop (Suc (nat (index - i))) xs"
proof (induction xs arbitrary: i)
  case Nil
  then show ?case by simp
next
  case (Cons x xs)
  show ?case
  proof (cases "i = index")
    case True
    then show ?thesis by (simp add: filter_indexed_keep)
  next
    case False
    with Cons.prems have lt: "i + 1 \<le> index" "index < (i + 1) + int (length xs)"
      by simp_all
    from lt have k: "nat (index - i) = Suc (nat (index - (i + 1)))"
      by arith
    from Cons.IH [OF lt] False k show ?thesis by simp
  qed
qed

lemma onDelete_history:
  "0 \<le> i \<Longrightarrow> i < int (length (history s)) \<Longrightarrow>
   history (onDelete i s) = take (nat i) (history s) @ drop (Suc (nat i)) (history s)"
  using filter_indexed_drop [of 0 i "history s"] by (simp add: onDelete_def)

text \<open>
  C6. For every history \<open>H\<close>, buffer \<open>X\<close> and name \<open>n\<close> that is not blank (such as
  "Foo"), a save appends the one entry \<open>{name: n, code: X}\<close> at the end of \<open>H\<close>, leaves
  \<open>H\<close> as a prefix in its order, and leaves the buffer \<open>X\<close> (the producer too); no alert
  is raised.
\<close>

theorem save_appends_entry:
  assumes "trim n \<noteq> []"
  shows "handleSave \<lparr>componentName = n\<rparr> \<lparr>Sandbox.code = X, Component = P, history = H\<rparr>
     = (None, \<lparr>componentName = []\<rparr>,
        \<lparr>Sandbox.code = X, Component = P, history = H @ [\<lparr>name = n, code = X\<rparr>]\<rparr>)"
  using assms by (simp add: handleSave_def onSave_def)

theorem save_appends_entry_witness:
  "trim (js ''Foo'') \<noteq> []
   \<and> handleSave \<lparr>componentName = js ''Foo''\<rparr>
        \<lparr>Sandbox.code = js ''x'', Component = Null, history = [\<lparr>name = js ''A'', code = js ''1''\<rparr>]\<rparr>
     = (None, \<lparr>componentName = []\<rparr>,
        \<lparr>Sandbox.code = js ''x'', Component = Null,
         history = [\<lparr>name = js ''A'', code = js ''1''\<rparr>, \<lparr>name = js ''Foo'', code = js ''x''\<rparr>]\<rparr>)"
proof -
  have named: "trim (js ''Foo'') \<noteq> []"
    by (simp add: trim_def js_def isWhiteSpace_def)
  from save_appends_entry [OF named, of "js ''x''" Null "[\<lparr>name = js ''A'', code = js ''1''\<rparr>]"]
  have "handleSave \<lparr>componentName = js ''Foo''\<rparr>
        \<lparr>Sandbox.code = js ''x'', Component = Null, history = [\<lparr>name = js ''A'', code = js ''1''\<rparr>]\<rparr>
     = (None, \<lparr>componentName = []\<rparr>,
        \<lparr>Sandbox.code = js ''x'', Component = Null,
         history = [\<lparr>name = js ''A'', code = js ''1''\<rparr>, \<lparr>name = js ''Foo'', code = js ''x''\<rparr>]\<rparr>)"
    by simp
  with named show ?thesis by (rule conjI)
qed

text \<open>
  C7. Deleting at a valid position \<open>i\<close> gives a history one entry shorter, in which the
  entries before \<open>i\<close> are where they were and each entry formerly at \<open>j > i\<close> is at
  \<open>j - 1\<close>; the buffer and the producer are untouched.
\<close>

theorem delete_shifts_later_entries:
  assumes "0 \<le> i" and "i < int (length (history s))"
  shows "length (history (onDelete i s)) = length (history s) - 1
       \<and> (\<forall>j. j < nat i \<longrightarrow> history (onDelete i s) ! j = history s ! j)
       \<and> (\<forall>j. nat i < j \<and> j < length (history s) \<longrightarrow> history (onDelete i s) ! (j - 1) = history s ! j)
       \<and> Sandbox.code (onDelete i s) = Sandbox.code s \<and> Component (onDelete i s) = Component s"
proof -
  let ?H = "history s"
  have eq: "history (onDelete i s) = take (nat i) ?H @ drop (Suc (nat i)) ?H"
    using assms by (rule onDelete_history)
  have n: "nat i < length ?H" using assms by simp
  have len: "length (history (onDelete i s)) = length ?H - 1"
    using n by (simp add: eq)
  have before: "history (onDelete i s) ! j = ?H ! j" if "j < nat i" for j
    using that n by (simp add: eq nth_append)
  have after: "history (onDelete i s) ! (j - 1) = ?H ! j" if "nat i < j" "j < length ?H" for j
  proof -
    have "\<not> j - 1 < nat i" using that by simp
    moreover have "Suc (nat i) + (j - 1 - nat i) = j" using that by simp
    ultimately show ?thesis using that n by (simp add: eq nth_append min_def)
  qed
  have rest: "Sandbox.code (onDelete i s) = Sandbox.code s \<and> Component (onDelete i s) = Component s"
    by (simp add: onDelete_def)
  from len before after rest show ?thesis by blast
qed

theorem delete_shifts_later_entries_witness:
  "(0::int) \<le> 1 \<and> 1 < int (length (history three_entries))
   \<and> length (history (onDelete 1 three_entries)) = 2
   \<and> history (onDelete 1 three_entries) ! 0 = \<lparr>name = js ''A'', code = js ''1''\<rparr>
   \<and> history (onDelete 1 three_entries) ! 1 = \<lparr>name = js ''C'', code = js ''3''\<rparr>"
proof -
  have h1: "(0::int) \<le> 1" by simp
  have h2: "1 < int (length (history three_entries))" by (simp add: three_entries_def)
  note d = delete_shifts_later_entries [OF h1 h2]
  from d have "length (history (onDelete 1 three_entries)) = length (history three_entries) - 1"
    by blast
  then have len: "length (history (onDelete 1 three_entries)) = 2"
    by (simp add: three_entries_def)
  from d have "0 < nat 1 \<longrightarrow> history (onDelete 1 three_entries) ! 0 = history three_entries ! 0"
    by blast
  then have first: "history (onDelete 1 three_entries) ! 0 = \<lparr>name = js ''A'', code = js ''1''\<rparr>"
    by (simp add: three_entries_def)
  from d have "nat 1 < 2 \<and> 2 < length (history three_entries)
      \<longrightarrow> history (onDelete 1 three_entries) ! (2 - 1) = history three_entries ! 2"
    by blast
  then have second: "history (onDelete 1 three_entries) ! 1 = \<lparr>name = js ''C'', code = js ''3''\<rparr>"
    by (simp add: three_entries_def)
  from h1 h2 len first second show ?thesis by blast
qed

text \<open>
  C9. A save whose name is empty or only whitespace changes neither the history nor the
  buffer nor the name input (it raises the alert); a save whose trimmed name is not empty
  appends the entry, under the name as typed, and clears the name input. So an entry is
  appended exactly when the trimmed name is not empty.
\<close>

theorem save_needs_a_name:
  "(trim (componentName ed) = [] \<longrightarrow>
      handleSave ed s = (Some (js ''Please enter a component name before saving.''), ed, s))
   \<and> (trim (componentName ed) \<noteq> [] \<longrightarrow>
      handleSave ed s =
        (None, ed\<lparr>componentName := []\<rparr>,
         s\<lparr>history := history s @ [\<lparr>name = componentName ed, code = Sandbox.code s\<rparr>]\<rparr>))
   \<and> (history (snd (snd (handleSave ed s))) \<noteq> history s \<longleftrightarrow> trim (componentName ed) \<noteq> [])"
  by (simp add: handleSave_def onSave_def)

theorem save_needs_a_name_witness:
  "trim (componentName \<lparr>componentName = js ''  ''\<rparr>) = []
   \<and> handleSave \<lparr>componentName = js ''  ''\<rparr> \<lparr>Sandbox.code = js ''x'', Component = Null, history = []\<rparr>
       = (Some (js ''Please enter a component name before saving.''), \<lparr>componentName = js ''  ''\<rparr>,
          \<lparr>Sandbox.code = js ''x'', Component = Null, history = []\<rparr>)
   \<and> trim (componentName \<lparr>componentName = js '' A''\<rparr>) \<noteq> []
   \<and> handleSave \<lparr>componentName = js '' A''\<rparr> \<lparr>Sandbox.code = js ''x'', Component = Null, history = []\<rparr>
       = (None, \<lparr>componentName = []\<rparr>,
          \<lparr>Sandbox.code = js ''x'', Component = Null, history = [\<lparr>name = js '' A'', code = js ''x''\<rparr>]\<rparr>)"
  using save_needs_a_name [of "\<lparr>componentName = js ''  ''\<rparr>" "\<lparr>Sandbox.code = js ''x'', Component = Null, history = []\<rparr>"]
    save_needs_a_name [of "\<lparr>componentName = js '' A''\<rparr>" "\<lparr>Sandbox.code = js ''x'', Component = Null, history = []\<rparr>"]
  by (simp add: trim_def js_def isWhiteSpace_def)

text \<open>
  C10. Deleting at an index below zero or at or beyond the length of the history returns
  the state as it was: the filter of line 189 keeps every entry.
\<close>

theorem delete_out_of_range_is_noop:
  "i < 0 \<or> int (length (history s)) \<le> i \<Longrightarrow> onDelete i s = s"
  by (auto simp: onDelete_def filter_indexed_keep filter_indexed_beyond)

theorem delete_out_of_range_is_noop_witness:
  "onDelete (-1) \<lparr>Sandbox.code = [], Component = Null, history = [\<lparr>name = js ''A'', code = js ''1''\<rparr>]\<rparr>
     = \<lparr>Sandbox.code = [], Component = Null, history = [\<lparr>name = js ''A'', code = js ''1''\<rparr>]\<rparr>
   \<and> onDelete 1 \<lparr>Sandbox.code = [], Component = Null, history = [\<lparr>name = js ''A'', code = js ''1''\<rparr>]\<rparr>
     = \<lparr>Sandbox.code = [], Component = Null, history = [\<lparr>name = js ''A'', code = js ''1''\<rparr>]\<rparr>"
  using delete_out_of_range_is_noop [of "-1" "\<lparr>Sandbox.code = [], Component = Null, history = [\<lparr>name = js ''A'', code = js ''1''\<rparr>]\<rparr>"]
    delete_out_of_range_is_noop [of 1 "\<lparr>Sandbox.code = [], Component = Null, history = [\<lparr>name = js ''A'', code = js ''1''\<rparr>]\<rparr>"]
  by simp

subsection \<open>Evaluation\<close>

lemma js_simps: "js [] = []" "js (c # cs) = of_char c # js cs"
  by (simp_all add: js_def)

lemmas example_defs =
  example_babel_def example_run_def example_react_def example_react_dom_def
  default_zero_def exports_five_def exports_null_def default_element_def unterminated_def
  SyntaxError_def

lemma map_of_set_prop: "map_of (set_prop ps k v) x = (if x = k then Some v else map_of ps x)"
  by (induction ps) auto

lemma keys_set_prop:
  "map fst (set_prop ps k v) = map fst ps @ (if k \<in> fst ` set ps then [] else [k])"
  by (induction ps) force+

lemma map_of_spread_other:
  "k \<notin> fst ` set src \<Longrightarrow> map_of (spread base src) k = map_of base k"
  by (induction src arbitrary: base) (auto simp: map_of_set_prop)

lemma keys_spread_prefix:
  "take (length base) (map fst (spread base src)) = map fst base"
proof (induction src arbitrary: base)
  case Nil
  then show ?case by simp
next
  case (Cons p src)
  obtain k v where p: "p = (k, v)" by (cases p)
  let ?base' = "set_prop base k v"
  have le: "length base \<le> length ?base'"
    using arg_cong [OF keys_set_prop [of base k v], of length] by simp
  have "take (length base) (map fst (spread ?base' src))
      = take (length base) (take (length ?base') (map fst (spread ?base' src)))"
    using le by (simp add: min_absorb1)
  also have "\<dots> = take (length base) (map fst ?base')"
    by (simp only: Cons.IH)
  also have "\<dots> = map fst base"
    by (simp add: keys_set_prop)
  finally show ?case by (simp add: p)
qed

lemma keys_spread_set:
  "fst ` set (spread base src) = fst ` set base \<union> fst ` set src"
proof (induction src arbitrary: base)
  case Nil
  then show ?case by simp
next
  case (Cons p src)
  obtain k v where p: "p = (k, v)" by (cases p)
  have "set (map fst (set_prop base k v)) = insert k (fst ` set base)"
    by (auto simp: keys_set_prop)
  then have "fst ` set (set_prop base k v) = insert k (fst ` set base)"
    by simp
  with Cons.IH [of "set_prop base k v"] show ?case by (auto simp: p)
qed

lemma sandbox_names:
  "take 2 (map fst (createSandboxEnvironment R D)) = [js ''React'', js ''ReactDOM'']"
  "fst ` set (createSandboxEnvironment R D) = {js ''React'', js ''ReactDOM''} \<union> fst ` set R"
  using keys_spread_prefix [of "[(js ''React'', Object R), (js ''ReactDOM'', D)]" R]
   apply (simp add: createSandboxEnvironment_def numeral_2_eq_2)
  apply (simp add: createSandboxEnvironment_def keys_spread_set)
  done

lemma sandbox_require:
  "js ''React'' \<notin> fst ` set R \<Longrightarrow>
     require (createSandboxEnvironment R D) (String (js ''react'')) = Inr (Object R)"
  "js ''ReactDOM'' \<notin> fst ` set R \<Longrightarrow> m \<noteq> String (js ''react'') \<Longrightarrow>
     require (createSandboxEnvironment R D) m = Inr D"
  by (simp_all add: require_def resolve_def createSandboxEnvironment_def map_of_spread_other js_simps)

text \<open>
  C1. The claim is that a failure of the transform is caught and turned into the
  "Evaluation Error" producer. The code has the call of \<^verbatim>\<open>transpileCode\<close> before its
  \<^verbatim>\<open>try\<close>: when the transform throws, \<^verbatim>\<open>evaluateCode\<close> returns no producer at all, the
  exception leaves the debounced function, and \<^verbatim>\<open>setComponent\<close> is not reached, so the
  producer stays what it was. The buffer and the history are unchanged, as claimed.
\<close>

theorem transpile_failure_escapes:
  assumes "transpileCode transform c = Inl thrown"
  shows "evaluateCode transform exec c sandboxEnv = Inl thrown
       \<and> codeEvaluation transform exec React_exports ReactDOM c s = (Some thrown, s)"
  using assms by (simp add: evaluateCode_def codeEvaluation_def)

theorem transpile_failure_escapes_witness:
  "transpileCode example_babel unterminated = Inl (SyntaxError (js ''Unexpected token (1:4)''))
   \<and> evaluateCode example_babel example_run unterminated
        (createSandboxEnvironment example_react example_react_dom)
       = Inl (SyntaxError (js ''Unexpected token (1:4)''))
   \<and> codeEvaluation example_babel example_run example_react example_react_dom unterminated three_entries
       = (Some (SyntaxError (js ''Unexpected token (1:4)'')), three_entries)"
proof -
  have h: "transpileCode example_babel unterminated = Inl (SyntaxError (js ''Unexpected token (1:4)''))"
    by (simp add: transpileCode_def example_babel_def)
  from h transpile_failure_escapes [OF h] show ?thesis by simp
qed

text \<open>
  What the \<^verbatim>\<open>catch\<close> of line 43 does with a failure that it does see: a script that sets
  \<^verbatim>\<open>module.exports\<close> to \<^verbatim>\<open>null\<close> makes line 36 throw inside the \<^verbatim>\<open>try\<close>, and the result is the
  producer of the box headed "Evaluation Error:" with the message of the failure.
\<close>

lemma caught_failure_is_rendered:
  "wrappedCode example_run exports_null (createSandboxEnvironment example_react example_react_dom)
     = Inl (TypeError (js ''Cannot read properties of null''))
   \<and> evaluateCode example_babel example_run exports_null
        (createSandboxEnvironment example_react example_react_dom)
     = Inr (ErrorProducer (TypeError (js ''Cannot read properties of null'')))
   \<and> call user (ErrorProducer (TypeError (js ''Cannot read properties of null'')))
     = Inr (error_box (js ''Evaluation Error:'') (String (js ''Cannot read properties of null'')))"
  by (simp add: evaluateCode_def wrappedCode_def transpileCode_def example_defs js_simps TypeError_def)

text \<open>
  C2, as stated, fails. A script that stores \<open>0\<close> in the default slot gets the exports
  container as its result, not the \<open>0\<close> it stored: line 36 tests the slot with \<^verbatim>\<open>||\<close>, which
  passes over every falsy value and not only an unset slot. And the scope holds more than
  two injected names: line 26 spreads the exports of React into the environment.
\<close>

theorem falsy_default_counterexample:
  "transpileCode example_babel default_zero = Inr default_zero
   \<and> example_run default_zero (createSandboxEnvironment example_react example_react_dom)
        (require (createSandboxEnvironment example_react example_react_dom))
       = Inr (Object [(js ''default'', Number 0)])
   \<and> get_prop (Object [(js ''default'', Number 0)]) (js ''default'') = Inr (Number 0)
   \<and> wrappedCode example_run default_zero (createSandboxEnvironment example_react example_react_dom)
       = Inr (Object [(js ''default'', Number 0)])
   \<and> wrappedCode example_run default_zero (createSandboxEnvironment example_react example_react_dom)
       \<noteq> Inr (Number 0)
   \<and> map fst (createSandboxEnvironment example_react example_react_dom)
       = [js ''React'', js ''ReactDOM'', js ''createElement'', js ''useState'']"
  by (simp add: wrappedCode_def transpileCode_def createSandboxEnvironment_def example_defs js_simps)

text \<open>
  C2, amended. When the generated function returns, its result is the value of the
  default slot of \<^verbatim>\<open>module.exports\<close> if that value is truthy, and otherwise the value of
  \<^verbatim>\<open>module.exports\<close> itself. The script runs with the injected names \<^verbatim>\<open>React\<close> and
  \<^verbatim>\<open>ReactDOM\<close>, in this order, followed by the names of the exports of React and no other;
  unless React exports one of these two names itself, \<^verbatim>\<open>require\<close> gives the React library
  for \<^verbatim>\<open>'react'\<close> and the DOM library for every other argument.
\<close>

theorem evaluation_result:
  assumes "wrappedCode exec t (createSandboxEnvironment R D) = Inr result"
  shows "(\<exists>exports dflt.
            exec t (createSandboxEnvironment R D) (require (createSandboxEnvironment R D))
              = Inr exports
          \<and> get_prop exports (js ''default'') = Inr dflt
          \<and> result = (if truthy dflt then dflt else exports))
       \<and> take 2 (map fst (createSandboxEnvironment R D)) = [js ''React'', js ''ReactDOM'']
       \<and> fst ` set (createSandboxEnvironment R D) = {js ''React'', js ''ReactDOM''} \<union> fst ` set R
       \<and> (js ''React'' \<notin> fst ` set R \<longrightarrow>
            require (createSandboxEnvironment R D) (String (js ''react'')) = Inr (Object R))
       \<and> (js ''ReactDOM'' \<notin> fst ` set R \<longrightarrow>
            (\<forall>m. m \<noteq> String (js ''react'') \<longrightarrow> require (createSandboxEnvironment R D) m = Inr D))"
proof -
  have "\<exists>exports dflt.
            exec t (createSandboxEnvironment R D) (require (createSandboxEnvironment R D))
              = Inr exports
          \<and> get_prop exports (js ''default'') = Inr dflt
          \<and> result = (if truthy dflt then dflt else exports)"
    using assms by (auto simp: wrappedCode_def split: sum.splits)
  then show ?thesis
  proof (intro conjI impI allI)
    show "take 2 (map fst (createSandboxEnvironment R D)) = [js ''React'', js ''ReactDOM'']"
      by (rule sandbox_names(1))
    show "fst ` set (createSandboxEnvironment R D) = {js ''React'', js ''ReactDOM''} \<union> fst ` set R"
      by (rule sandbox_names(2))
    show "require (createSandboxEnvironment R D) (String (js ''react'')) = Inr (Object R)"
      if "js ''React'' \<notin> fst ` set R"
      using that by (rule sandbox_require(1))
    show "require (createSandboxEnvironment R D) m = Inr D"
      if "js ''ReactDOM'' \<notin> fst ` set R" and "m \<noteq> String (js ''react'')" for m
      using that by (rule sandbox_require(2))
  qed
qed

theorem evaluation_result_witness:
  "wrappedCode example_run default_element (createSandboxEnvironment example_react example_react_dom)
     = Inr (Element (String (js ''hr'')) [] [])
   \<and> example_run default_element (createSandboxEnvironment example_react example_react_dom)
        (require (createSandboxEnvironment example_react example_react_dom))
     = Inr (Object [(js ''default'', Element (String (js ''hr'')) [] [])])
   \<and> js ''React'' \<notin> fst ` set example_react
   \<and> js ''ReactDOM'' \<notin> fst ` set example_react
   \<and> require (createSandboxEnvironment example_react example_react_dom) (String (js ''react''))
     = Inr (Object example_react)
   \<and> require (createSandboxEnvironment example_react example_react_dom) (String (js ''react-dom''))
     = Inr example_react_dom"
proof -
  let ?env = "createSandboxEnvironment example_react example_react_dom"
  have h: "wrappedCode example_run default_element ?env = Inr (Element (String (js ''hr'')) [] [])"
    by (simp add: wrappedCode_def example_defs js_simps)
  have run: "example_run default_element ?env (require ?env)
      = Inr (Object [(js ''default'', Element (String (js ''hr'')) [] [])])"
    by (simp add: example_defs js_simps)
  have r: "js ''React'' \<notin> fst ` set example_react"
    and d: "js ''ReactDOM'' \<notin> fst ` set example_react"
    by (simp_all add: example_defs js_simps)
  have other: "String (js ''react-dom'') \<noteq> String (js ''react'')"
    by (simp add: js_simps)
  note result = evaluation_result [OF h]
  note lib = result [THEN conjunct2, THEN conjunct2, THEN conjunct2, THEN conjunct1, THEN mp, OF r]
  note dom = result [THEN conjunct2, THEN conjunct2, THEN conjunct2, THEN conjunct2, THEN mp, OF d,
      THEN spec, THEN mp, OF other]
  show ?thesis
    using h run r d lib dom by (intro conjI)
qed

text \<open>
  C3. When the result of the generated function is a valid element, \<^verbatim>\<open>evaluateCode\<close>
  returns the producer \<^verbatim>\<open>() => result\<close>, and calling it gives that element, whoever calls
  and however often. When the result is anything else, callable or not, \<^verbatim>\<open>evaluateCode\<close>
  returns the result itself.
\<close>

theorem classification:
  assumes "transpileCode transform c = Inr t" and "wrappedCode exec t env = Inr result"
  shows "(isValidElement result \<longrightarrow>
            evaluateCode transform exec c env = Inr (ConstProducer result)
          \<and> (\<forall>user. call user (ConstProducer result) = Inr result))
       \<and> (\<not> isValidElement result \<longrightarrow> evaluateCode transform exec c env = Inr result)"
  using assms by (simp add: evaluateCode_def)

theorem classification_witness:
  "transpileCode example_babel default_element = Inr default_element
   \<and> wrappedCode example_run default_element (createSandboxEnvironment example_react example_react_dom)
       = Inr (Element (String (js ''hr'')) [] [])
   \<and> isValidElement (Element (String (js ''hr'')) [] [])
   \<and> evaluateCode example_babel example_run default_element
        (createSandboxEnvironment example_react example_react_dom)
       = Inr (ConstProducer (Element (String (js ''hr'')) [] []))
   \<and> transpileCode example_babel exports_five = Inr exports_five
   \<and> wrappedCode example_run exports_five (createSandboxEnvironment example_react example_react_dom)
       = Inr (Number 5)
   \<and> \<not> isValidElement (Number 5) \<and> \<not> callable (Number 5)
   \<and> evaluateCode example_babel example_run exports_five
        (createSandboxEnvironment example_react example_react_dom)
       = Inr (Number 5)"
proof -
  let ?env = "createSandboxEnvironment example_react example_react_dom"
  have t1: "transpileCode example_babel default_element = Inr default_element"
    by (simp add: transpileCode_def example_defs js_simps)
  have r1: "wrappedCode example_run default_element ?env = Inr (Element (String (js ''hr'')) [] [])"
    by (simp add: wrappedCode_def example_defs js_simps)
  have t2: "transpileCode example_babel exports_five = Inr exports_five"
    by (simp add: transpileCode_def example_defs js_simps)
  have r2: "wrappedCode example_run exports_five ?env = Inr (Number 5)"
    by (simp add: wrappedCode_def example_defs js_simps)
  from classification [OF t1 r1] classification [OF t2 r2] t1 r1 t2 r2 show ?thesis
    by simp
qed

subsection \<open>The error listener\<close>

text \<open>
  C5. Once the cell of the listener holds an error, any number of producer changes leaves
  the cell as it is, and what is rendered in place of the children, whatever they are, is
  the box headed "Runtime Error:" with the message of that error. The cell changes only
  at an error event that carries another value.
\<close>

theorem runtime_error_persists:
  assumes "truthy (error b)"
  shows "error (fold boundary_step (map ProducerChange producers) b) = error b
       \<and> (\<exists>message. get_prop (error b) (js ''message'') = Inr message
            \<and> renderErrorBoundary (fold boundary_step (map ProducerChange producers) b) children
                = Inr (error_box (js ''Runtime Error:'') message))
       \<and> (\<forall>ev. error (boundary_step ev b) \<noteq> error b \<longrightarrow> (\<exists>e. ev = ErrorEvent e \<and> e \<noteq> error b))"
proof -
  have keep: "fold boundary_step (map ProducerChange producers) b = b"
    by (induction producers) simp_all
  from assms obtain message where m: "get_prop (error b) (js ''message'') = Inr message"
    by (cases "error b") auto
  have shown: "renderErrorBoundary b children = Inr (error_box (js ''Runtime Error:'') message)"
    using assms m by (simp add: renderErrorBoundary_def)
  have only: "\<exists>e. ev = ErrorEvent e \<and> e \<noteq> error b" if "error (boundary_step ev b) \<noteq> error b" for ev
    using that by (cases ev) (auto simp: errorHandler_def)
  from keep m shown only show ?thesis by auto
qed

theorem runtime_error_persists_witness:
  "truthy (error (errorHandler (TypeError (js ''x is not a function'')) \<lparr>error = Null\<rparr>))
   \<and> renderErrorBoundary
        (fold boundary_step
           [ProducerChange (ConstProducer (Element (String (js ''hr'')) [] [])), ProducerChange Null]
           (errorHandler (TypeError (js ''x is not a function'')) \<lparr>error = Null\<rparr>))
        (Element (String (js ''hr'')) [] [])
       = Inr (error_box (js ''Runtime Error:'') (String (js ''x is not a function'')))"
proof -
  let ?b = "errorHandler (TypeError (js ''x is not a function'')) \<lparr>error = Null\<rparr>"
  have h: "truthy (error ?b)"
    by (simp add: errorHandler_def TypeError_def)
  have m: "get_prop (error ?b) (js ''message'') = Inr (String (js ''x is not a function''))"
    by (simp add: errorHandler_def TypeError_def js_simps)
  from runtime_error_persists [OF h,
      of "[ConstProducer (Element (String (js ''hr'')) [] []), Null]" "Element (String (js ''hr'')) [] []"] m
  have "renderErrorBoundary
        (fold boundary_step
           (map ProducerChange [ConstProducer (Element (String (js ''hr'')) [] []), Null]) ?b)
        (Element (String (js ''hr'')) [] [])
       = Inr (error_box (js ''Runtime Error:'') (String (js ''x is not a function'')))"
    by auto
  with h show ?thesis by simp
qed

subsection \<open>The preview frame\<close>

text \<open>
  C8. Selecting a preset of the catalog sets the size cell to the dimensions the catalog
  gives it, and the style of the output area then has exactly that width and that height.
  Selecting "Desktop" empties the cell: the style is the one of line 124 without a preset,
  with no width and the height of \<^verbatim>\<open>400px\<close> that the area has by default. The cell holds at
  most one size, and no two presets of the catalog have the same one, so at most one
  preset is active in any state.
\<close>

theorem preset_selection:
  "(\<forall>(device, sz) \<in> set MOBILE_SIZES.
       mobileSize (onChange device m) = Some sz
     \<and> style (onChange device m)
         = [(js ''height'', Number (height sz)), (js ''overflowY'', String (js ''auto'')),
            (js ''width'', Number (width sz))])
   \<and> mobileSize (onChange [] m) = None
   \<and> style (onChange [] m)
       = [(js ''height'', String (js ''400px'')), (js ''overflowY'', String (js ''auto''))]
   \<and> length (active_presets m) \<le> 1"
  by (simp add: MOBILE_SIZES_def onChange_def style_def active_presets_def js_simps)

theorem preset_selection_witness:
  "(js ''iPad'', \<lparr>width = 768, height = 1024\<rparr>) \<in> set MOBILE_SIZES
   \<and> mobileSize (onChange (js ''iPad'') \<lparr>isFullscreen = False, mobileSize = None\<rparr>)
       = Some \<lparr>width = 768, height = 1024\<rparr>
   \<and> style (onChange (js ''iPad'') \<lparr>isFullscreen = False, mobileSize = None\<rparr>)
       = [(js ''height'', Number 1024), (js ''overflowY'', String (js ''auto'')),
          (js ''width'', Number 768)]"
proof -
  have mem: "(js ''iPad'', \<lparr>width = 768, height = 1024\<rparr>) \<in> set MOBILE_SIZES"
    by (simp add: MOBILE_SIZES_def)
  from preset_selection [of "\<lparr>isFullscreen = False, mobileSize = None\<rparr>"]
  have "\<forall>(device, sz) \<in> set MOBILE_SIZES.
       mobileSize (onChange device \<lparr>isFullscreen = False, mobileSize = None\<rparr>) = Some sz
     \<and> style (onChange device \<lparr>isFullscreen = False, mobileSize = None\<rparr>)
         = [(js ''height'', Number (height sz)), (js ''overflowY'', String (js ''auto'')),
            (js ''width'', Number (width sz))]"
    by (rule conjunct1)
  with mem show ?thesis by fastforce
qed

subsection \<open>Debounced evaluation\<close>

lemma codeEvaluation_code:
  "Sandbox.code (snd (codeEvaluation transform exec R D c s)) = Sandbox.code s"
  by (simp add: codeEvaluation_def split: sum.splits)

lemma elapse_code: "Sandbox.code (sandbox (elapse h now ss)) = Sandbox.code (sandbox ss)"
proof (cases "debounced_due now (timer ss)")
  case None
  then show ?thesis by (simp add: elapse_def)
next
  case (Some arg)
  obtain uncaught s' where
    cb: "codeEvaluation (babel h) (run h) (react h) (react_dom h) arg (sandbox ss) = (uncaught, s')"
    by (cases "codeEvaluation (babel h) (run h) (react h) (react_dom h) arg (sandbox ss)")
  from codeEvaluation_code [of "babel h" "run h" "react h" "react_dom h" arg "sandbox ss"] cb
  have "Sandbox.code s' = Sandbox.code (sandbox ss)" by simp
  with Some cb show ?thesis by (simp add: elapse_def)
qed

lemma elapse_early:
  "pending (timer ss) = Some (due, arg) \<Longrightarrow> now < due \<Longrightarrow> elapse h now ss = ss"
  by (simp add: elapse_def debounced_due_def)

lemma elapse_late:
  "pending (timer ss) = Some (due, arg) \<Longrightarrow> due \<le> now \<Longrightarrow>
   evaluated (elapse h now ss) = evaluated ss @ [arg]"
  by (simp add: elapse_def debounced_due_def split: prod.splits)

lemma edit_changing:
  assumes "snd e \<noteq> Sandbox.code (sandbox ss)"
  shows "pending (timer (edit h e ss)) = Some (fst e + DEBOUNCE_DELAY, snd e)"
    and "Sandbox.code (sandbox (edit h e ss)) = snd e"
    and "evaluated (edit h e ss) = evaluated (elapse h (fst e) ss)"
  using assms by (simp_all add: edit_def Let_def elapse_code debounced_call_def setCode_def)

lemma edits_rapid:
  assumes "rapid (e # es)"
    and "pending (timer ss) = Some (fst e + DEBOUNCE_DELAY, snd e)"
    and "Sandbox.code (sandbox ss) = snd e"
  shows "evaluated (edits h es ss) = evaluated ss
       \<and> pending (timer (edits h es ss))
           = Some (fst (last (e # es)) + DEBOUNCE_DELAY, snd (last (e # es)))"
  using assms
proof (induction es arbitrary: e ss)
  case Nil
  then show ?case by simp
next
  case (Cons e' es)
  from Cons.prems(1) have step: "fst e' < fst e + DEBOUNCE_DELAY" "snd e' \<noteq> snd e"
    and rest: "rapid (e' # es)"
    by simp_all
  from Cons.prems(2) step(1) have still: "elapse h (fst e') ss = ss"
    by (rule elapse_early)
  from step(2) Cons.prems(3) have changes: "snd e' \<noteq> Sandbox.code (sandbox ss)"
    by simp
  note after = edit_changing [OF changes, of h]
  from after(3) still have same: "evaluated (edit h e' ss) = evaluated ss"
    by simp
  from Cons.IH [OF rest after(1) after(2)] same show ?case
    by simp
qed

text \<open>
  C4. Take edits that each change the buffer and each come less than \<open>DEBOUNCE_DELAY\<close>
  after the one before. While they arrive, nothing is evaluated beyond what had been by
  the time of the first of them; and however long one waits afterwards, the only
  evaluation added is that of the buffer of the last edit, once its delay has passed. No
  earlier buffer of the sequence is ever evaluated.
\<close>

theorem rapid_edits_coalesce:
  assumes "rapid (e # es)" and "snd e \<noteq> Sandbox.code (sandbox ss)"
  shows "evaluated (edits h (e # es) ss) = evaluated (elapse h (fst e) ss)
       \<and> (\<forall>later. evaluated (elapse h later (edits h (e # es) ss))
             = evaluated (elapse h (fst e) ss)
               @ (if fst (last (e # es)) + DEBOUNCE_DELAY \<le> later then [snd (last (e # es))] else []))"
proof -
  note first = edit_changing [OF assms(2), of h]
  from edits_rapid [OF assms(1) first(1) first(2), of h]
  have during: "evaluated (edits h (e # es) ss) = evaluated (edit h e ss)"
    and left: "pending (timer (edits h (e # es) ss))
                 = Some (fst (last (e # es)) + DEBOUNCE_DELAY, snd (last (e # es)))"
    by simp_all
  have after: "evaluated (elapse h later (edits h (e # es) ss))
      = evaluated (edits h (e # es) ss)
        @ (if fst (last (e # es)) + DEBOUNCE_DELAY \<le> later then [snd (last (e # es))] else [])"
    for later
  proof (cases "fst (last (e # es)) + DEBOUNCE_DELAY \<le> later")
    case True
    with elapse_late [OF left True, of h] show ?thesis by simp
  next
    case False
    then have "later < fst (last (e # es)) + DEBOUNCE_DELAY" by simp
    from elapse_early [OF left this, of h] False show ?thesis by simp
  qed
  from during first(3) after show ?thesis by simp
qed

theorem rapid_edits_coalesce_witness:
  "rapid [(1000, js ''a''), (1300, js ''ab''), (1700, js ''abc'')]
   \<and> snd (1000 :: nat, js ''a'') \<noteq> Sandbox.code (sandbox (mount 0))
   \<and> evaluated (edits example_host [(1000, js ''a''), (1300, js ''ab''), (1700, js ''abc'')] (mount 0)) = [[]]
   \<and> evaluated (elapse example_host 2200
        (edits example_host [(1000, js ''a''), (1300, js ''ab''), (1700, js ''abc'')] (mount 0)))
       = [[], js ''abc'']"
proof -
  have h1: "rapid [(1000, js ''a''), (1300, js ''ab''), (1700, js ''abc'')]"
    by (simp add: DEBOUNCE_DELAY_def js_simps)
  have h2: "snd (1000 :: nat, js ''a'') \<noteq> Sandbox.code (sandbox (mount 0))"
    by (simp add: mount_def js_simps)
  have before: "evaluated (elapse example_host (fst (1000 :: nat, js ''a'')) (mount 0)) = [[]]"
    by (simp add: elapse_def mount_def debounced_due_def debounced_call_def DEBOUNCE_DELAY_def
        split: prod.splits)
  from rapid_edits_coalesce [OF h1 h2, of example_host] before
  have "evaluated (edits example_host [(1000, js ''a''), (1300, js ''ab''), (1700, js ''abc'')] (mount 0)) = [[]]"
    and "evaluated (elapse example_host 2200
        (edits example_host [(1000, js ''a''), (1300, js ''ab''), (1700, js ''abc'')] (mount 0)))
       = [[]] @ (if fst (last [(1000 :: nat, js ''a''), (1300, js ''ab''), (1700, js ''abc'')]) + DEBOUNCE_DELAY \<le> 2200
                 then [snd (last [(1000 :: nat, js ''a''), (1300, js ''ab''), (1700, js ''abc'')])] else [])"
    by simp_all
  with h1 h2 show ?thesis by (simp add: DEBOUNCE_DELAY_def)
qed

end
